theory Spec2Isabelle
  imports Main "HOL-Library.Sublist"
begin

section \<open>Data model\<close>

text \<open>
  The script \<^verbatim>\<open>generate_plots.py\<close> reads CSV dumps of UDP traffic, splits every dump by
  direction, derives jitter and delay series from the \<^verbatim>\<open>Time\<close> column and draws one
  figure per dump. A row of a dump carries the three columns the script reads. The type
  of a time stamp is left open: the script only subtracts time stamps and scales the
  differences by \<^verbatim>\<open>1000.\<close>, so nothing but those two operations is asked of it.
\<close>

record 'a row =
  Time :: 'a
  Source :: string
  Destination :: string

type_synonym 'a frame = "'a row list"

datatype error =
    ValueError string
  | RuntimeError string
  | FileNotFoundError string
  | ParserError string

text \<open>
  A figure as \<^verbatim>\<open>make_plot\<close> leaves it: the super-title and, for each of the three axes,
  the lines drawn on it as pairs of x and y data. Axis labels, limits and the grid are
  constants of the script and are not part of the model.
\<close>

record 'a figure =
  suptitle :: string
  status_axes :: "('a list \<times> 'a list) list"
  command_axes :: "('a list \<times> 'a list) list"
  delay_axes :: "('a list \<times> 'a list) list"

text \<open>
  The world the script runs in. The first four fields are what the operating system
  answers when the script starts: the working directory, the entries of a directory
  (\<open>None\<close> when the path cannot be listed), the table \<^verbatim>\<open>pd.read_csv\<close> parses from a
  path (\<open>None\<close> when it raises) and the paths that exist. The last four fields log what
  the script does: figures drawn, directories made, figures saved with the name of the
  file written, figures put on display. Creating a directory and saving a figure are taken
  to succeed. A table is a list of rows with the three columns, so a path has a table here
  exactly when it holds a valid CSV with the columns \<^verbatim>\<open>Time\<close>, \<^verbatim>\<open>Source\<close> and
  \<^verbatim>\<open>Destination\<close>; a file that parses without one of them, on which the script raises
  a key error later, is outside the worlds described.
\<close>

record 'a world =
  cwd :: string
  dir_entries :: "string \<Rightarrow> string list option"
  csv_tables :: "string \<Rightarrow> 'a frame option"
  existing :: "string \<Rightarrow> bool"
  drawn :: "'a figure list"
  made_dirs :: "string list"
  saved :: "(string \<times> 'a figure) list"
  shown :: "'a figure list"

record args =
  arg_data_dir :: "string option"
  arg_figure_dir :: "string option"
  arg_hide :: bool
  arg_save :: bool

section \<open>Strings and paths\<close>

text \<open>Python's \<^verbatim>\<open>sub in s\<close> on strings.\<close>

fun str_contains :: "string \<Rightarrow> string \<Rightarrow> bool" where
  "str_contains sub [] = (sub = [])"
| "str_contains sub (c # cs) = (prefix sub (c # cs) \<or> str_contains sub cs)"

text \<open>Python's \<^verbatim>\<open>s.split(c)\<close> for a separator of one character.\<close>

fun split_on :: "char \<Rightarrow> string \<Rightarrow> string list" where
  "split_on c [] = [[]]"
| "split_on c (x # xs) =
     (if x = c then [] # split_on c xs
      else (case split_on c xs of
              [] \<Rightarrow> [[x]]
            | p # ps \<Rightarrow> (x # p) # ps))"

text \<open>\<^verbatim>\<open>os.path.join\<close> of two components on a POSIX system.\<close>

definition path_join :: "string \<Rightarrow> string \<Rightarrow> string" where
  "path_join a b =
     (if b \<noteq> [] \<and> hd b = CHR ''/'' then b
      else if a = [] \<or> last a = CHR ''/'' then a @ b
      else a @ ''/'' @ b)"

section \<open>Operating system and plotting library\<close>

definition os_listdir :: "'a world \<Rightarrow> string \<Rightarrow> error + string list" where
  "os_listdir w p =
     (case dir_entries w p of
        None \<Rightarrow> Inl (FileNotFoundError p)
      | Some entries \<Rightarrow> Inr entries)"

definition pd_read_csv :: "'a world \<Rightarrow> string \<Rightarrow> error + 'a frame" where
  "pd_read_csv w p =
     (case csv_tables w p of
        None \<Rightarrow> Inl (ParserError p)
      | Some t \<Rightarrow> Inr t)"

definition os_path_exists :: "'a world \<Rightarrow> string \<Rightarrow> bool" where
  "os_path_exists w p =
     (existing w p \<or> p \<in> set (made_dirs w) \<or> p \<in> set (map fst (saved w)))"

definition os_makedirs :: "string \<Rightarrow> 'a world \<Rightarrow> 'a world" where
  "os_makedirs p w = w\<lparr>made_dirs := made_dirs w @ [p]\<rparr>"

text \<open>
  \<^verbatim>\<open>os.path.splitext\<close> on a POSIX system: the extension starts at the last dot of the
  base name, and a base name that has only dots before that dot has no extension.
\<close>

definition os_path_splitext :: "string \<Rightarrow> string \<times> string" where
  "os_path_splitext p =
     (let base = rev (takeWhile (\<lambda>c. c \<noteq> CHR ''/'') (rev p));
          ext = CHR ''.'' # rev (takeWhile (\<lambda>c. c \<noteq> CHR ''.'') (rev base));
          stem = take (length base - length ext) base
      in if CHR ''.'' \<in> set base \<and> dropWhile (\<lambda>c. c = CHR ''.'') stem \<noteq> []
         then (take (length p - length ext) p, ext)
         else (p, []))"

text \<open>
  The file \<^verbatim>\<open>plt.savefig(p)\<close> writes. The library reads the format from the extension
  of \<^verbatim>\<open>p\<close>; when \<^verbatim>\<open>p\<close> has none it takes its default format, \<^verbatim>\<open>png\<close>, and writes to
  \<^verbatim>\<open>p.rstrip('.') + '.png'\<close>. The path \<^verbatim>\<open>make_plot\<close> hands over ends in \<^verbatim>\<open>.png\<close>, so the
  format is PNG either way; only the name of the file differs.
\<close>

definition savefig_filename :: "string \<Rightarrow> string" where
  "savefig_filename p =
     (let format = drop 1 (snd (os_path_splitext p))
      in if format = []
         then rev (dropWhile (\<lambda>c. c = CHR ''.'') (rev p)) @ ''.'' @ ''png''
         else p)"

definition plt_savefig :: "string \<Rightarrow> 'a figure \<Rightarrow> 'a world \<Rightarrow> 'a world" where
  "plt_savefig p fig w = w\<lparr>saved := saved w @ [(savefig_filename p, fig)]\<rparr>"

definition plt_show :: "'a figure \<Rightarrow> 'a world \<Rightarrow> 'a world" where
  "plt_show fig w = w\<lparr>shown := shown w @ [fig]\<rparr>"

section \<open>Loader\<close>

text \<open>The list comprehension over \<^verbatim>\<open>pd.read_csv\<close>: the first file that fails ends it.\<close>

fun read_frames :: "'a world \<Rightarrow> string list \<Rightarrow> error + 'a frame list" where
  "read_frames w [] = Inr []"
| "read_frames w (filepath # rest) =
     (case pd_read_csv w filepath of
        Inl e \<Rightarrow> Inl e
      | Inr frame \<Rightarrow>
          (case read_frames w rest of
             Inl e \<Rightarrow> Inl e
           | Inr frames \<Rightarrow> Inr (frame # frames)))"

definition load_data :: "string \<Rightarrow> 'a world \<Rightarrow> error + ('a frame list \<times> string list)" where
  "load_data data_dir w =
     (case os_listdir w data_dir of
        Inl e \<Rightarrow> Inl e
      | Inr entries \<Rightarrow>
          (let names = [name \<leftarrow> entries. str_contains ''.csv'' name];
               filepaths = map (path_join data_dir) [name \<leftarrow> entries. str_contains ''.csv'' name]
           in case read_frames w filepaths of
                Inl e \<Rightarrow> Inl e
              | Inr frames \<Rightarrow> Inr (frames, map (\<lambda>name. hd (split_on CHR ''.'' name)) names)))"

section \<open>Filter\<close>

definition filter_data :: "'a frame list \<Rightarrow> ('a frame \<times> 'a frame) list" where
  "filter_data dataframes =
     map (\<lambda>frame.
            (let to_arm = [r \<leftarrow> frame. Destination r = ''192.168.38.1'' \<and> Source r = ''192.168.38.11''];
                 from_arm = [r \<leftarrow> frame. Destination r = ''192.168.38.11'' \<and> Source r = ''192.168.38.1'']
             in (from_arm, to_arm)))
         dataframes"

section \<open>Metrics\<close>

text \<open>
  \<^verbatim>\<open>np.roll(a, k)\<close> on a one-dimensional array, for a shift to the right, and the
  subtraction of two one-dimensional arrays, which broadcasts an array of one element
  and raises on any other pair of different lengths.
\<close>

definition np_roll :: "'a list \<Rightarrow> nat \<Rightarrow> 'a list" where
  "np_roll a k =
     (if a = [] then []
      else (let n = length a; s = k mod n in drop (n - s) a @ take (n - s) a))"

definition np_sub :: "('a::minus) list \<Rightarrow> 'a list \<Rightarrow> error + 'a list" where
  "np_sub a b =
     (if length a = length b then Inr (map2 (-) a b)
      else if length a = 1 then Inr (map (\<lambda>y. hd a - y) b)
      else if length b = 1 then Inr (map (\<lambda>x. x - hd b) a)
      else Inl (ValueError ''operands could not be broadcast together''))"

definition np_scale :: "('a::{times,numeral}) list \<Rightarrow> 'a list" where
  "np_scale a = map (\<lambda>x. 1000 * x) a"

text \<open>Lines 100 to 103 of \<^verbatim>\<open>make_plot\<close>: the longer array is cut to the shorter one.\<close>

definition truncate_arrays :: "'a list \<Rightarrow> 'a list \<Rightarrow> 'a list \<times> 'a list" where
  "truncate_arrays status_array command_array =
     (if length command_array > length status_array
      then (status_array, take (length status_array) command_array)
      else (take (length command_array) status_array, command_array))"

record 'a series =
  status_array :: "'a list"
  command_array :: "'a list"
  status_jitter :: "'a list"
  command_jitter :: "'a list"
  command_delay :: "'a list"

text \<open>Lines 100 to 107 of \<^verbatim>\<open>make_plot\<close>.\<close>

definition compute_series :: "('a::minus) list \<Rightarrow> 'a list \<Rightarrow> error + 'a series" where
  "compute_series status_time command_time =
     (case truncate_arrays status_time command_time of
        (sa, ca) \<Rightarrow>
          (case np_sub sa (np_roll sa 1) of
             Inl e \<Rightarrow> Inl e
           | Inr sj \<Rightarrow>
               (case np_sub ca (np_roll ca 1) of
                  Inl e \<Rightarrow> Inl e
                | Inr cj \<Rightarrow>
                    (case np_sub ca sa of
                       Inl e \<Rightarrow> Inl e
                     | Inr cd \<Rightarrow>
                         Inr \<lparr>status_array = sa, command_array = ca,
                              status_jitter = sj, command_jitter = cj,
                              command_delay = cd\<rparr>))))"

section \<open>Renderer\<close>

text \<open>The three \<^verbatim>\<open>plot\<close> calls of \<^verbatim>\<open>make_plot\<close>, lines 110 to 118.\<close>

definition draw :: "string \<Rightarrow> ('a::{times,numeral}) series \<Rightarrow> 'a figure" where
  "draw title s =
     \<lparr>suptitle = title,
      status_axes = [(drop 1 (status_array s), np_scale (drop 1 (status_jitter s)))],
      command_axes = [(drop 1 (command_array s), np_scale (drop 1 (command_jitter s)))],
      delay_axes = [(command_array s, np_scale (command_delay s))]\<rparr>"

definition blank :: "string \<Rightarrow> 'a figure" where
  "blank title = \<lparr>suptitle = title, status_axes = [], command_axes = [], delay_axes = []\<rparr>"

definition make_plot ::
  "('a::{minus,times,numeral}) frame \<Rightarrow> 'a frame \<Rightarrow> string \<Rightarrow> bool \<Rightarrow> bool \<Rightarrow> string option
     \<Rightarrow> 'a world \<Rightarrow> error option \<times> 'a world" where
  "make_plot status_frame command_frame title save show figures_dir w =
     (if save \<and> figures_dir = None
      then (Some (ValueError ''figures_dir must be specified if save == True''), w)
      else
        (case compute_series (map Time status_frame) (map Time command_frame) of
           Inl e \<Rightarrow> (Some e, w\<lparr>drawn := drawn w @ [blank title]\<rparr>)
         | Inr s \<Rightarrow>
             (let fig = draw title s;
                  w1 = w\<lparr>drawn := drawn w @ [fig]\<rparr>;
                  w2 = (if save
                        then (let figure_path = path_join (cwd w1) ''figures'';
                                  w' = (if \<not> os_path_exists w1 figure_path
                                        then os_makedirs figure_path w1 else w1)
                              in plt_savefig (path_join figure_path (title @ ''.png'')) fig w')
                        else w1);
                  w3 = (if show then plt_show fig w2 else w2)
              in (None, w3))))"

section \<open>Driver\<close>

text \<open>The loop of \<^verbatim>\<open>main\<close> over \<^verbatim>\<open>range(len(dataframes))\<close>; an exception ends it.\<close>

fun plot_loop ::
  "(('a::{minus,times,numeral}) frame \<times> 'a frame) list \<Rightarrow> string list \<Rightarrow> string option
     \<Rightarrow> bool \<Rightarrow> bool \<Rightarrow> nat list \<Rightarrow> 'a world \<Rightarrow> error option \<times> 'a world" where
  "plot_loop filtered_frames names figures_dir save show [] w = (None, w)"
| "plot_loop filtered_frames names figures_dir save show (i # rest) w =
     (case make_plot (fst (filtered_frames ! i)) (snd (filtered_frames ! i)) (names ! i)
             save show figures_dir w of
        (Some e, w') \<Rightarrow> (Some e, w')
      | (None, w') \<Rightarrow> plot_loop filtered_frames names figures_dir save show rest w')"

definition main ::
  "string \<Rightarrow> string option \<Rightarrow> bool \<Rightarrow> bool \<Rightarrow> ('a::{minus,times,numeral}) world
     \<Rightarrow> error option \<times> 'a world" where
  "main data_dir figures_dir save show w =
     (case load_data data_dir w of
        Inl e \<Rightarrow> (Some e, w)
      | Inr (dataframes, names) \<Rightarrow>
          if length dataframes = 0
          then (Some (RuntimeError (''No .csv files were found in '' @ data_dir)), w)
          else (let filtered_frames = filter_data dataframes
                in plot_loop filtered_frames names figures_dir save show
                     [0 ..< length dataframes] w))"

text \<open>The block under \<^verbatim>\<open>if __name__ == "__main__"\<close>, after the arguments are parsed.\<close>

definition run_script ::
  "args \<Rightarrow> ('a::{minus,times,numeral}) world \<Rightarrow> error option \<times> 'a world" where
  "run_script a w =
     (let data_dir = (case arg_data_dir a of None \<Rightarrow> path_join (cwd w) ''data'' | Some d \<Rightarrow> d);
          figure_dir = (case arg_figure_dir a of None \<Rightarrow> path_join (cwd w) ''figures'' | Some d \<Rightarrow> d)
      in if arg_hide a \<and> \<not> arg_save a
         then (Some (ValueError
                 ''You don't want to show the plots and you don't want to save them, so why make them?''), w)
         else main data_dir (Some figure_dir) (arg_save a) (\<not> arg_hide a) w)"

section \<open>Vocabulary of the statements\<close>

text \<open>
  Shorthands for terms of the script that the statements below repeat: the directory
  \<^verbatim>\<open>make_plot\<close> computes in line 122, the figure it draws from two sub-tables, the
  figure of a whole trace under a title, the name of the PNG file written for a title,
  the entries \<^verbatim>\<open>load_data\<close> keeps, and the part of a name before its first dot.
\<close>

abbreviation figure_path :: "'a world \<Rightarrow> string" where
  "figure_path w \<equiv> path_join (cwd w) ''figures''"

abbreviation figure_for :: "string \<Rightarrow> ('a::{minus,times,numeral}) frame \<Rightarrow> 'a frame \<Rightarrow> 'a figure" where
  "figure_for title status_frame command_frame \<equiv>
     draw title (projr (compute_series (map Time status_frame) (map Time command_frame)))"

abbreviation trace_figure :: "string \<Rightarrow> ('a::{minus,times,numeral}) frame \<Rightarrow> 'a figure" where
  "trace_figure title frame \<equiv>
     figure_for title (fst (hd (filter_data [frame]))) (snd (hd (filter_data [frame])))"

abbreviation png_name :: "string \<Rightarrow> string" where
  "png_name title \<equiv> (if title = [] then ''.png.png'' else title @ ''.png'')"

abbreviation csv_names :: "string list \<Rightarrow> string list" where
  "csv_names entries \<equiv> [name \<leftarrow> entries. str_contains ''.csv'' name]"

abbreviation before_dot :: "string \<Rightarrow> string" where
  "before_dot name \<equiv> takeWhile (\<lambda>c. c \<noteq> CHR ''.'') name"

section \<open>Example inputs\<close>

definition example_frame :: "int frame" where
  "example_frame =
     [\<lparr>Time = 0, Source = ''192.168.38.1'', Destination = ''192.168.38.11''\<rparr>,
      \<lparr>Time = 1, Source = ''192.168.38.11'', Destination = ''192.168.38.1''\<rparr>,
      \<lparr>Time = 2, Source = ''192.168.38.7'', Destination = ''192.168.38.11''\<rparr>,
      \<lparr>Time = 4, Source = ''192.168.38.1'', Destination = ''192.168.38.11''\<rparr>,
      \<lparr>Time = 6, Source = ''192.168.38.11'', Destination = ''192.168.38.1''\<rparr>,
      \<lparr>Time = 9, Source = ''192.168.38.1'', Destination = ''192.168.38.11''\<rparr>]"

definition example_world :: "int world" where
  "example_world =
     \<lparr>cwd = ''/home/user'',
      dir_entries = (\<lambda>p. if p = ''/data'' then Some [''trace1.csv'', ''notes.txt'']
                         else if p = ''/runs'' then Some [''run.1.csv'', ''run.2.csv'']
                         else if p = ''/empty'' then Some [''notes.txt'']
                         else None),
      csv_tables = (\<lambda>p. if p = ''/data/trace1.csv'' \<or> p = ''/runs/run.1.csv''
                             \<or> p = ''/runs/run.2.csv''
                         then Some example_frame else None),
      existing = (\<lambda>p. p \<in> {''/data'', ''/runs'', ''/empty'', ''/home/user''}),
      drawn = [], made_dirs = [], saved = [], shown = []\<rparr>"

definition dotfile_world :: "int world" where
  "dotfile_world =
     \<lparr>cwd = ''/home/user'',
      dir_entries = (\<lambda>p. if p = ''/hidden'' then Some [''.trace.csv'']
                         else if p = ''/multi''
                              then Some [''a.csv'', ''.trace.csv'', ''notes.txt'', ''b.csv'']
                         else None),
      csv_tables = (\<lambda>p. if p = ''/hidden/.trace.csv'' \<or> p = ''/multi/a.csv''
                             \<or> p = ''/multi/.trace.csv'' \<or> p = ''/multi/b.csv''
                         then Some example_frame else None),
      existing = (\<lambda>p. p \<in> {''/hidden'', ''/multi'', ''/home/user''}),
      drawn = [], made_dirs = [], saved = [], shown = []\<rparr>"

section \<open>Strings, arrays and series\<close>

lemma str_contains_iff: "str_contains sub s \<longleftrightarrow> (\<exists>ps ss. s = ps @ sub @ ss)"
proof (induction s)
  case Nil
  then show ?case by auto
next
  case (Cons c cs)
  show ?case
  proof
    assume "str_contains sub (c # cs)"
    then consider "prefix sub (c # cs)" | "str_contains sub cs" by auto
    then show "\<exists>ps ss. c # cs = ps @ sub @ ss"
    proof cases
      case 1
      then obtain ss where "c # cs = sub @ ss" by (auto simp: prefix_def)
      then have "c # cs = [] @ sub @ ss" by simp
      then show ?thesis by blast
    next
      case 2
      with Cons.IH obtain ps ss where "cs = ps @ sub @ ss" by blast
      then have "c # cs = (c # ps) @ sub @ ss" by simp
      then show ?thesis by blast
    qed
  next
    assume "\<exists>ps ss. c # cs = ps @ sub @ ss"
    then obtain ps ss where eq: "c # cs = ps @ sub @ ss" by blast
    show "str_contains sub (c # cs)"
    proof (cases ps)
      case Nil
      with eq have "prefix sub (c # cs)" by (auto simp: prefix_def)
      then show ?thesis by simp
    next
      case (Cons p ps')
      with eq have "cs = ps' @ sub @ ss" by simp
      with Cons.IH have "str_contains sub cs" by blast
      then show ?thesis by simp
    qed
  qed
qed

lemma split_on_not_Nil: "split_on c s \<noteq> []"
  by (induction s) (auto split: list.splits)

lemma hd_split_on: "hd (split_on c s) = takeWhile (\<lambda>x. x \<noteq> c) s"
  by (induction s) (auto split: list.splits simp: split_on_not_Nil)

lemma length_np_roll: "length (np_roll a k) = length a"
  by (auto simp: np_roll_def Let_def)

lemma np_roll_one: "a \<noteq> [] \<Longrightarrow> np_roll a 1 = last a # butlast a"
proof -
  assume ne: "a \<noteq> []"
  show ?thesis
  proof (cases "length a = 1")
    case True
    then obtain x where "a = [x]" by (cases a) auto
    then show ?thesis by (simp add: np_roll_def)
  next
    case False
    with ne have "1 < length a" by (cases a) auto
    then have m: "(1::nat) mod length a = 1" by simp
    have "drop (length (butlast a)) (butlast a @ [last a]) = [last a]" by simp
    then have "drop (length a - 1) a = [last a]" using ne by simp
    moreover have "take (length a - 1) a = butlast a" by (simp add: butlast_conv_take)
    ultimately show ?thesis using ne m by (simp add: np_roll_def Let_def)
  qed
qed

lemma np_roll_Suc_0: "a \<noteq> [] \<Longrightarrow> np_roll a (Suc 0) = last a # butlast a"
  using np_roll_one [of a] by simp

lemma np_sub_same: "length a = length b \<Longrightarrow> np_sub a b = Inr (map2 (-) a b)"
  by (simp add: np_sub_def)

lemma truncate_arrays_eq:
  "truncate_arrays s c =
     (take (min (length s) (length c)) s, take (min (length s) (length c)) c)"
  by (auto simp: truncate_arrays_def min_def)

lemma compute_series_eq:
  "compute_series s c =
     (let n = min (length s) (length c); sa = take n s; ca = take n c
      in Inr \<lparr>status_array = sa, command_array = ca,
              status_jitter = map2 (-) sa (np_roll sa 1),
              command_jitter = map2 (-) ca (np_roll ca 1),
              command_delay = map2 (-) ca sa\<rparr>)"
  by (simp add: compute_series_def truncate_arrays_eq np_sub_same length_np_roll Let_def)

text \<open>
  Claim C5. For every pair of Time arrays, the three subtractions of \<^verbatim>\<open>make_plot\<close>
  raise nothing, both arrays are cut to their leading prefix of the shorter length, and
  the command delay has that length and is, element by element, the command time minus
  the status time.
\<close>

theorem C5_command_delay:
  fixes status command :: "('a::minus) list"
  shows "\<exists>s. compute_series status command = Inr s
     \<and> status_array s = take (min (length status) (length command)) status
     \<and> command_array s = take (min (length status) (length command)) command
     \<and> length (command_delay s) = min (length status) (length command)
     \<and> command_delay s = map2 (-) (command_array s) (status_array s)
     \<and> (\<forall>i < min (length status) (length command).
           command_delay s ! i = command ! i - status ! i)"
  by (simp add: compute_series_eq Let_def)

theorem C5_command_delay_witness:
  "(1::nat) < min (length [10, 12, 15 :: int]) (length [11, 14 :: int])
   \<and> (\<exists>s. compute_series [10, 12, 15 :: int] [11, 14] = Inr s
         \<and> command_delay s = [1, 2] \<and> command_delay s ! 1 = 14 - 12)"
  using C5_command_delay [of "[10, 12, 15 :: int]" "[11, 14]"] by auto

lemma nth_np_roll_one:
  assumes "0 < i" "i < length a"
  shows "np_roll a 1 ! i = a ! (i - 1)"
proof -
  from assms have ne: "a \<noteq> []" by auto
  from assms obtain j where j: "i = Suc j" by (cases i) auto
  with assms have "j < length (butlast a)" by simp
  then have "butlast a ! j = a ! j" by (simp add: nth_butlast)
  with j ne show ?thesis by (simp add: np_roll_Suc_0)
qed

lemma hd_np_roll_one: "a \<noteq> [] \<Longrightarrow> np_roll a 1 ! 0 = last a"
  by (simp add: np_roll_Suc_0)

lemma jitter_nth:
  fixes a :: "('a::minus) list"
  assumes "0 < i" "i < length a"
  shows "map2 (-) a (np_roll a 1) ! i = a ! i - a ! (i - 1)"
  using assms nth_np_roll_one [of i a] by (simp add: length_np_roll)

lemma jitter_wrap:
  fixes a :: "('a::minus) list"
  assumes "a \<noteq> []"
  shows "map2 (-) a (np_roll a 1) ! 0 = a ! 0 - last a"
  using assms hd_np_roll_one [of a] by (simp add: length_np_roll)

lemma jitter_facts:
  fixes a :: "('a::minus) list"
  defines "raw \<equiv> map2 (-) a (np_roll a 1)"
  shows "length raw = length a
     \<and> int (length (drop 1 raw)) = max 0 (int (length a) - 1)
     \<and> (a \<noteq> [] \<longrightarrow> int (length (drop 1 raw)) = int (length a) - 1)
     \<and> (a = [] \<longrightarrow> drop 1 raw = [])
     \<and> (\<forall>i. 1 \<le> i \<and> i < length a \<longrightarrow>
           raw ! i = a ! i - a ! (i - 1) \<and> drop 1 raw ! (i - 1) = raw ! i)
     \<and> (a \<noteq> [] \<longrightarrow> raw ! 0 = a ! 0 - last a)
     \<and> drop 1 raw = tl raw"
proof -
  have len: "length raw = length a" by (simp add: raw_def length_np_roll)
  have "\<forall>i. 1 \<le> i \<and> i < length a \<longrightarrow>
           raw ! i = a ! i - a ! (i - 1) \<and> drop 1 raw ! (i - 1) = raw ! i"
    using len jitter_nth [of _ a] by (auto simp: raw_def)
  moreover have "a \<noteq> [] \<longrightarrow> raw ! 0 = a ! 0 - last a"
    using jitter_wrap [of a] by (simp only: raw_def) blast
  moreover have "a \<noteq> [] \<longrightarrow> int (length (drop 1 raw)) = int (length a) - 1"
    using len by (cases a) auto
  moreover have "int (length (drop 1 raw)) = max 0 (int (length a) - 1)"
    using len by (cases a) auto
  moreover have "a = [] \<longrightarrow> drop 1 raw = []" using len by auto
  moreover have "drop 1 raw = tl raw" by (simp add: drop_Suc)
  ultimately show ?thesis using len by blast
qed

text \<open>
  Claim C6, as stated, at the empty array. A dump with no frame in one direction gives
  empty truncated arrays; the jitter slice \<^verbatim>\<open>status_jitter[1:]\<close> is then empty, of
  length 0, where the claim asks for the length \<open>0 - 1\<close>.
\<close>

theorem C6_counterexample:
  "\<not> isl (compute_series ([] :: int list) [])
   \<and> int (length (drop 1 (status_jitter (projr (compute_series ([] :: int list) [])))))
       \<noteq> int (length (status_array (projr (compute_series ([] :: int list) [])))) - 1"
  by (simp add: compute_series_eq np_roll_def)

text \<open>
  Claim C6, amended. The raw jitter array is as long as the truncated array; the series
  plotted is the raw array without its element 0; for a non-empty truncated array it is
  one shorter than the array, for an empty one it is empty; at every index \<open>i \<ge> 1\<close> the
  raw difference is \<open>time[i] - time[i-1]\<close>; the raw difference at index 0, which wraps
  around to the last element, is the one dropped.
\<close>

theorem C6_jitter_series:
  fixes status command :: "('a::{minus,times,numeral}) list"
  shows "\<exists>s. compute_series status command = Inr s
     \<and> status_axes (draw title s)
         = [(drop 1 (status_array s), np_scale (drop 1 (status_jitter s)))]
     \<and> command_axes (draw title s)
         = [(drop 1 (command_array s), np_scale (drop 1 (command_jitter s)))]
     \<and> length (status_jitter s) = length (status_array s)
     \<and> length (command_jitter s) = length (command_array s)
     \<and> (status_array s \<noteq> [] \<longrightarrow>
           int (length (drop 1 (status_jitter s))) = int (length (status_array s)) - 1)
     \<and> (command_array s \<noteq> [] \<longrightarrow>
           int (length (drop 1 (command_jitter s))) = int (length (command_array s)) - 1)
     \<and> (status_array s = [] \<longrightarrow> drop 1 (status_jitter s) = [])
     \<and> (command_array s = [] \<longrightarrow> drop 1 (command_jitter s) = [])
     \<and> (\<forall>i. 1 \<le> i \<and> i < length (status_array s) \<longrightarrow>
           status_jitter s ! i = status_array s ! i - status_array s ! (i - 1)
           \<and> drop 1 (status_jitter s) ! (i - 1) = status_jitter s ! i)
     \<and> (\<forall>i. 1 \<le> i \<and> i < length (command_array s) \<longrightarrow>
           command_jitter s ! i = command_array s ! i - command_array s ! (i - 1)
           \<and> drop 1 (command_jitter s) ! (i - 1) = command_jitter s ! i)
     \<and> (status_array s \<noteq> [] \<longrightarrow>
           status_jitter s ! 0 = status_array s ! 0 - last (status_array s))
     \<and> (command_array s \<noteq> [] \<longrightarrow>
           command_jitter s ! 0 = command_array s ! 0 - last (command_array s))
     \<and> drop 1 (status_jitter s) = tl (status_jitter s)
     \<and> drop 1 (command_jitter s) = tl (command_jitter s)"
proof -
  define n where "n = min (length status) (length command)"
  define s where "s = \<lparr>status_array = take n status, command_array = take n command,
              status_jitter = map2 (-) (take n status) (np_roll (take n status) 1),
              command_jitter = map2 (-) (take n command) (np_roll (take n command) 1),
              command_delay = map2 (-) (take n command) (take n status)\<rparr>"
  have run: "compute_series status command = Inr s"
    by (simp add: compute_series_eq Let_def s_def n_def)
  have sel: "status_array s = take n status" "command_array s = take n command"
    "status_jitter s = map2 (-) (take n status) (np_roll (take n status) 1)"
    "command_jitter s = map2 (-) (take n command) (np_roll (take n command) 1)"
    by (simp_all add: s_def)
  have ax: "status_axes (draw title s)
         = [(drop 1 (status_array s), np_scale (drop 1 (status_jitter s)))]"
     "command_axes (draw title s)
         = [(drop 1 (command_array s), np_scale (drop 1 (command_jitter s)))]"
    by (simp_all add: draw_def)
  note st = jitter_facts [of "take n status", folded sel]
  note cm = jitter_facts [of "take n command", folded sel]
  show ?thesis
    apply (rule exI [of _ s])
    using run ax st cm by blast
qed

theorem C6_jitter_series_witness:
  "\<exists>s. compute_series [10, 12, 15 :: int] [11, 14, 18] = Inr s
     \<and> status_array s \<noteq> [] \<and> (1::nat) \<le> 2 \<and> 2 < length (status_array s)
     \<and> drop 1 (status_jitter s) = [2, 3]
     \<and> status_jitter s ! 2 = 15 - 12
     \<and> status_jitter s ! 0 = 10 - 15"
  using C6_jitter_series [of "[10, 12, 15 :: int]" "[11, 14, 18]"]
  by (auto simp: compute_series_eq np_roll_def)

section \<open>Filter and guards\<close>

text \<open>
  Claim C7. A row is in the first sub-table of a trace exactly when its source is the
  device address and its destination the controller address, in the second exactly when
  the two are reversed; a row matching neither pair is in neither sub-table.
\<close>

theorem C7_filter_exact_match:
  assumes "i < length dataframes"
  shows "fst (filter_data dataframes ! i)
           = [r \<leftarrow> dataframes ! i. Source r = ''192.168.38.1'' \<and> Destination r = ''192.168.38.11'']
     \<and> snd (filter_data dataframes ! i)
           = [r \<leftarrow> dataframes ! i. Source r = ''192.168.38.11'' \<and> Destination r = ''192.168.38.1'']
     \<and> (\<forall>r. r \<in> set (fst (filter_data dataframes ! i)) \<longleftrightarrow>
              r \<in> set (dataframes ! i)
              \<and> Source r = ''192.168.38.1'' \<and> Destination r = ''192.168.38.11'')
     \<and> (\<forall>r. r \<in> set (snd (filter_data dataframes ! i)) \<longleftrightarrow>
              r \<in> set (dataframes ! i)
              \<and> Source r = ''192.168.38.11'' \<and> Destination r = ''192.168.38.1'')
     \<and> (\<forall>r. \<not> (Source r = ''192.168.38.1'' \<and> Destination r = ''192.168.38.11'')
              \<and> \<not> (Source r = ''192.168.38.11'' \<and> Destination r = ''192.168.38.1'')
              \<longrightarrow> r \<notin> set (fst (filter_data dataframes ! i))
                  \<and> r \<notin> set (snd (filter_data dataframes ! i)))"
proof -
  have "filter_data dataframes ! i
          = ([r \<leftarrow> dataframes ! i. Destination r = ''192.168.38.11'' \<and> Source r = ''192.168.38.1''],
             [r \<leftarrow> dataframes ! i. Destination r = ''192.168.38.1'' \<and> Source r = ''192.168.38.11''])"
    using assms by (simp add: filter_data_def Let_def)
  moreover have "(\<lambda>r::'a row. Destination r = ''192.168.38.11'' \<and> Source r = ''192.168.38.1'')
          = (\<lambda>r. Source r = ''192.168.38.1'' \<and> Destination r = ''192.168.38.11'')"
    by (rule ext) blast
  moreover have "(\<lambda>r::'a row. Destination r = ''192.168.38.1'' \<and> Source r = ''192.168.38.11'')
          = (\<lambda>r. Source r = ''192.168.38.11'' \<and> Destination r = ''192.168.38.1'')"
    by (rule ext) blast
  ultimately have
    f: "fst (filter_data dataframes ! i)
           = [r \<leftarrow> dataframes ! i. Source r = ''192.168.38.1'' \<and> Destination r = ''192.168.38.11'']"
    and s: "snd (filter_data dataframes ! i)
           = [r \<leftarrow> dataframes ! i. Source r = ''192.168.38.11'' \<and> Destination r = ''192.168.38.1'']"
    by simp_all
  show ?thesis unfolding f s by auto
qed

theorem C7_filter_exact_match_witness:
  "(0::nat) < length [example_frame]
   \<and> map Time (fst (filter_data [example_frame] ! 0)) = [0, 4, 9]
   \<and> map Time (snd (filter_data [example_frame] ! 0)) = [1, 6]
   \<and> \<lparr>Time = 2, Source = ''192.168.38.7'', Destination = ''192.168.38.11''\<rparr>
        \<notin> set (fst (filter_data [example_frame] ! 0))
   \<and> \<lparr>Time = 2, Source = ''192.168.38.7'', Destination = ''192.168.38.11''\<rparr>
        \<notin> set (snd (filter_data [example_frame] ! 0))"
  using C7_filter_exact_match [of 0 "[example_frame]"]
  by (simp add: example_frame_def)

text \<open>
  Claim C10. The two sub-tables of a trace share no row, each is a subsequence of the
  trace in its order, and the filter returns one pair per trace.
\<close>

theorem C10_filter_disjoint_subseq:
  assumes "i < length dataframes"
  shows "set (fst (filter_data dataframes ! i)) \<inter> set (snd (filter_data dataframes ! i)) = {}
     \<and> subseq (fst (filter_data dataframes ! i)) (dataframes ! i)
     \<and> subseq (snd (filter_data dataframes ! i)) (dataframes ! i)
     \<and> length (filter_data dataframes) = length dataframes"
  using assms by (auto simp: filter_data_def Let_def)

theorem C10_filter_disjoint_subseq_witness:
  "(0::nat) < length [example_frame]
   \<and> set (fst (filter_data [example_frame] ! 0)) \<inter> set (snd (filter_data [example_frame] ! 0)) = {}
   \<and> subseq (fst (filter_data [example_frame] ! 0)) example_frame
   \<and> subseq (snd (filter_data [example_frame] ! 0)) example_frame"
  using C10_filter_disjoint_subseq [of 0 "[example_frame]"] by simp

text \<open>
  Claim C9. With saving requested and no output directory, \<^verbatim>\<open>make_plot\<close> raises the
  value error and leaves the world as it was: nothing drawn, nothing written.
\<close>

theorem C9_save_without_directory:
  "make_plot status_frame command_frame title True show None w
     = (Some (ValueError ''figures_dir must be specified if save == True''), w)"
  by (simp add: make_plot_def)

text \<open>
  Claim C3. With \<^verbatim>\<open>--hide\<close> and without \<^verbatim>\<open>--save\<close> the script raises the value error
  before \<^verbatim>\<open>main\<close> is called and leaves the world as it was.
\<close>

theorem C3_hide_without_save:
  assumes "arg_hide a" and "\<not> arg_save a"
  shows "run_script a w
     = (Some (ValueError
          ''You don't want to show the plots and you don't want to save them, so why make them?''), w)"
  using assms by (simp add: run_script_def Let_def)

theorem C3_hide_without_save_witness:
  "arg_hide \<lparr>arg_data_dir = Some ''/data'', arg_figure_dir = None, arg_hide = True, arg_save = False\<rparr>
   \<and> \<not> arg_save \<lparr>arg_data_dir = Some ''/data'', arg_figure_dir = None, arg_hide = True, arg_save = False\<rparr>
   \<and> fst (run_script \<lparr>arg_data_dir = Some ''/data'', arg_figure_dir = None,
                       arg_hide = True, arg_save = False\<rparr> example_world)
        = Some (ValueError
          ''You don't want to show the plots and you don't want to save them, so why make them?'')
   \<and> saved (snd (run_script \<lparr>arg_data_dir = Some ''/data'', arg_figure_dir = None,
                       arg_hide = True, arg_save = False\<rparr> example_world)) = []
   \<and> drawn (snd (run_script \<lparr>arg_data_dir = Some ''/data'', arg_figure_dir = None,
                       arg_hide = True, arg_save = False\<rparr> example_world)) = []"
  using C3_hide_without_save [of "\<lparr>arg_data_dir = Some ''/data'', arg_figure_dir = None,
                       arg_hide = True, arg_save = False\<rparr>" example_world]
  by (simp add: example_world_def)

text \<open>
  Claim C4. When no entry of the data directory has \<^verbatim>\<open>.csv\<close> in its name, \<^verbatim>\<open>main\<close>
  raises the runtime error and leaves the world as it was: no figure is drawn or saved.
\<close>

theorem C4_no_csv_files:
  assumes "dir_entries w data_dir = Some entries"
    and "\<forall>name \<in> set entries. \<not> str_contains ''.csv'' name"
  shows "main data_dir figures_dir save show w
     = (Some (RuntimeError (''No .csv files were found in '' @ data_dir)), w)"
proof -
  from assms(2) have "[name \<leftarrow> entries. str_contains ''.csv'' name] = []"
    by (simp add: filter_empty_conv)
  with assms(1) have "load_data data_dir w = Inr ([], [])"
    by (simp add: load_data_def os_listdir_def)
  then show ?thesis by (simp add: main_def)
qed

theorem C4_no_csv_files_witness:
  "dir_entries example_world ''/empty'' = Some [''notes.txt'']
   \<and> \<not> str_contains ''.csv'' ''notes.txt''
   \<and> main ''/empty'' (Some ''/out'') True False example_world
       = (Some (RuntimeError ''No .csv files were found in /empty''), example_world)"
proof -
  have h1: "dir_entries example_world ''/empty'' = Some [''notes.txt'']"
    by (simp add: example_world_def)
  have h2: "\<forall>name \<in> set [''notes.txt'']. \<not> str_contains ''.csv'' name"
    by simp
  from C4_no_csv_files [OF h1 h2, of "Some ''/out''" True False] h1 h2
  show ?thesis by simp
qed

section \<open>Effects of the renderer and of the loop\<close>

lemma compute_series_projr:
  "compute_series s c = Inr (projr (compute_series s c))"
  by (simp add: compute_series_eq Let_def)

lemma make_plot_effect:
  assumes "\<not> (save \<and> figures_dir = None)"
  shows "make_plot sf cf title save show figures_dir w =
    (None, w\<lparr>drawn := drawn w @ [figure_for title sf cf],
             made_dirs := made_dirs w @
                (if save \<and> \<not> os_path_exists w (figure_path w) then [figure_path w] else []),
             saved := saved w @
                (if save
                 then [(savefig_filename (path_join (figure_path w) (title @ ''.png'')),
                        figure_for title sf cf)]
                 else []),
             shown := shown w @ (if show then [figure_for title sf cf] else [])\<rparr>)"
proof -
  obtain s where s: "compute_series (map Time sf) (map Time cf) = Inr s"
    using compute_series_projr by blast
  then have p: "projr (compute_series (map Time sf) (map Time cf)) = s" by simp
  show ?thesis
    using assms unfolding make_plot_def s p
    by (simp add: Let_def os_path_exists_def os_makedirs_def plt_savefig_def plt_show_def)
qed

lemma plot_loop_effect:
  assumes "\<not> (save \<and> figures_dir = None)"
  shows "plot_loop ff names figures_dir save show idx w =
    (None, w\<lparr>drawn := drawn w @ map (\<lambda>i. figure_for (names ! i) (fst (ff ! i)) (snd (ff ! i))) idx,
             made_dirs := made_dirs w @
                (if save \<and> idx \<noteq> [] \<and> \<not> os_path_exists w (figure_path w)
                 then [figure_path w] else []),
             saved := saved w @
                (if save
                 then map (\<lambda>i. (savefig_filename (path_join (figure_path w) (names ! i @ ''.png'')),
                                figure_for (names ! i) (fst (ff ! i)) (snd (ff ! i)))) idx
                 else []),
             shown := shown w @
                (if show then map (\<lambda>i. figure_for (names ! i) (fst (ff ! i)) (snd (ff ! i))) idx
                 else [])\<rparr>)"
proof (induction idx arbitrary: w)
  case Nil
  show ?case by simp
next
  case (Cons i rest)
  show ?case
    by (simp add: make_plot_effect [OF assms] Cons.IH os_path_exists_def)
qed

lemma figure_path_end: "figure_path w \<noteq> [] \<and> last (figure_path w) \<noteq> CHR ''/''"
  by (simp add: path_join_def)

lemma splitext_png:
  assumes "CHR ''/'' \<notin> set title" and "CHR ''.'' \<notin> set title"
  shows "os_path_splitext (d @ ''/'' @ title @ ''.png'')
     = (if title = [] then (d @ ''/'' @ title @ ''.png'', [])
        else (d @ ''/'' @ title, ''.png''))"
proof -
  have tw: "takeWhile (\<lambda>c. c \<noteq> CHR ''/'') (rev title @ CHR ''/'' # rev d) = rev title"
    using assms(1) by (auto simp: takeWhile_tail)
  have dw: "dropWhile (\<lambda>c. c = CHR ''.'') title = title"
    using assms(2) by (cases title) auto
  have nd: "(\<forall>x \<in> set title. x = CHR ''.'') \<longrightarrow> title = []"
    using assms(2) by (cases title) auto
  show ?thesis
    using tw dw nd by (simp add: os_path_splitext_def Let_def)
qed

lemma savefig_png:
  assumes "CHR ''/'' \<notin> set title" and "CHR ''.'' \<notin> set title"
    and "d \<noteq> []" and "last d \<noteq> CHR ''/''"
  shows "savefig_filename (path_join d (title @ ''.png'')) = d @ ''/'' @ png_name title"
proof -
  have hd: "title @ ''.png'' \<noteq> [] \<and> hd (title @ ''.png'') \<noteq> CHR ''/''"
    using assms(1) by (cases title) auto
  then have pj: "path_join d (title @ ''.png'') = d @ ''/'' @ title @ ''.png''"
    using assms(3,4) by (simp add: path_join_def)
  show ?thesis
    unfolding pj savefig_filename_def splitext_png [OF assms(1,2)]
    by (simp add: Let_def)
qed

section \<open>Results of the loader and of a run\<close>

lemma read_frames_Inr_iff:
  "read_frames w ps = Inr fs \<longleftrightarrow> map (csv_tables w) ps = map Some fs"
proof (induction ps arbitrary: fs)
  case Nil
  show ?case by auto
next
  case (Cons p ps)
  show ?case
  proof (cases "csv_tables w p")
    case None
    then show ?thesis by (auto simp: pd_read_csv_def)
  next
    case (Some t)
    show ?thesis
    proof (cases "read_frames w ps")
      case (Inl e)
      have "map (csv_tables w) ps \<noteq> map Some fs'" for fs'
        using Cons.IH [of fs'] Inl by simp
      with Inl Some show ?thesis by (auto simp: pd_read_csv_def map_eq_Cons_conv)
    next
      case (Inr fs')
      have eq: "map (csv_tables w) ps = map Some zs \<longleftrightarrow> fs' = zs" for zs
        using Cons.IH [of zs] Inr by auto
      show ?thesis
      proof (cases fs)
        case Nil
        with Inr Some show ?thesis by (simp add: pd_read_csv_def)
      next
        case (Cons z zs)
        with Inr Some eq [of zs] show ?thesis by (auto simp: pd_read_csv_def)
      qed
    qed
  qed
qed

lemma read_frames_all_parse:
  assumes "\<forall>p \<in> set ps. csv_tables w p \<noteq> None"
  shows "read_frames w ps = Inr (map (\<lambda>p. the (csv_tables w p)) ps)"
proof -
  have "map (csv_tables w) ps = map Some (map (\<lambda>p. the (csv_tables w p)) ps)"
    using assms by (induction ps) auto
  then show ?thesis by (simp only: read_frames_Inr_iff)
qed

lemma load_data_Inr:
  assumes "load_data data_dir w = Inr (frames, names)"
  shows "\<exists>entries. dir_entries w data_dir = Some entries
     \<and> names = map before_dot (csv_names entries)
     \<and> map (csv_tables w) (map (path_join data_dir) (csv_names entries)) = map Some frames"
proof (cases "dir_entries w data_dir")
  case None
  with assms show ?thesis by (simp add: load_data_def os_listdir_def)
next
  case (Some entries)
  with assms have "read_frames w (map (path_join data_dir) (csv_names entries)) = Inr frames"
    and "names = map (\<lambda>name. hd (split_on CHR ''.'' name)) (csv_names entries)"
    by (auto simp: load_data_def os_listdir_def Let_def split: sum.splits)
  with Some show ?thesis by (simp add: read_frames_Inr_iff hd_split_on)
qed

lemma load_data_all_parse:
  assumes "dir_entries w data_dir = Some entries"
    and "\<forall>name \<in> set (csv_names entries). csv_tables w (path_join data_dir name) \<noteq> None"
  shows "load_data data_dir w
     = Inr (map (\<lambda>name. the (csv_tables w (path_join data_dir name))) (csv_names entries),
            map before_dot (csv_names entries))"
proof -
  have "\<forall>p \<in> set (map (path_join data_dir) (csv_names entries)). csv_tables w p \<noteq> None"
    using assms(2) by auto
  from read_frames_all_parse [OF this] assms(1) show ?thesis
    by (simp add: load_data_def os_listdir_def Let_def hd_split_on comp_def)
qed

lemma main_effect:
  assumes "load_data data_dir w = Inr (dataframes, names)"
    and "dataframes \<noteq> []"
    and "\<not> (save \<and> figures_dir = None)"
  shows "main data_dir figures_dir save show w =
    plot_loop (filter_data dataframes) names figures_dir save show [0 ..< length dataframes] w"
  using assms by (simp add: main_def Let_def)

lemma before_dot_stem: "CHR ''.'' \<notin> set stem \<Longrightarrow> before_dot (stem @ ''.csv'') = stem"
  by (induction stem) auto

lemma before_dot_no_dot: "CHR ''.'' \<notin> set (before_dot name)"
proof
  assume "CHR ''.'' \<in> set (before_dot name)"
  then have "CHR ''.'' \<noteq> CHR ''.''" by (rule set_takeWhileD [THEN conjunct2])
  then show False by simp
qed

lemma before_dot_no_slash: "CHR ''/'' \<notin> set name \<Longrightarrow> CHR ''/'' \<notin> set (before_dot name)"
  using set_takeWhileD [of "CHR ''/''" "\<lambda>c. c \<noteq> CHR ''.''" name] by blast

lemma png_name_inj:
  assumes "CHR ''.'' \<notin> set a" and "CHR ''.'' \<notin> set b"
    and "png_name a = png_name b"
  shows "a = b"
proof (cases "a = []")
  case True
  show ?thesis
  proof (cases "b = []")
    case True
    with \<open>a = []\<close> show ?thesis by simp
  next
    case False
    with True assms(3) have "b @ ''.png'' = ''.png'' @ ''.png''" by simp
    then have "b = ''.png''" by (simp only: append_same_eq)
    with assms(2) show ?thesis by simp
  qed
next
  case False
  show ?thesis
  proof (cases "b = []")
    case True
    with False assms(3) have "a @ ''.png'' = ''.png'' @ ''.png''" by simp
    then have "a = ''.png''" by (simp only: append_same_eq)
    with assms(1) show ?thesis by simp
  next
    case b: False
    with False assms(3) show ?thesis by simp
  qed
qed

lemma png_file_distinct:
  assumes "distinct (map before_dot names)"
  shows "distinct (map (\<lambda>name. dir @ ''/'' @ png_name (before_dot name)) names)"
proof -
  have "inj_on (\<lambda>stem. dir @ ''/'' @ png_name stem) (set (map before_dot names))"
  proof (rule inj_onI)
    fix a b
    assume a: "a \<in> set (map before_dot names)" and b: "b \<in> set (map before_dot names)"
      and eq: "dir @ ''/'' @ png_name a = dir @ ''/'' @ png_name b"
    from a have da: "CHR ''.'' \<notin> set a" using before_dot_no_dot by auto
    from b have db: "CHR ''.'' \<notin> set b" using before_dot_no_dot by auto
    from eq have "png_name a = png_name b" by (simp only: same_append_eq)
    with da db show "a = b" by (rule png_name_inj)
  qed
  with assms
  have "distinct (map (\<lambda>stem. dir @ ''/'' @ png_name stem) (map before_dot names))"
    by (simp only: distinct_map)
  then show ?thesis by (simp only: map_map comp_def)
qed

lemma filter_data_nth:
  "i < length frames \<Longrightarrow> filter_data frames ! i = hd (filter_data [frames ! i])"
  by (simp add: filter_data_def)

lemma map_upt_nth2:
  assumes "length xs = length ys"
  shows "map (\<lambda>i. f (xs ! i) (ys ! i)) [0 ..< length ys] = map2 f xs ys"
proof (rule nth_equalityI)
  show "length (map (\<lambda>i. f (xs ! i) (ys ! i)) [0 ..< length ys]) = length (map2 f xs ys)"
    using assms by simp
next
  fix i assume "i < length (map (\<lambda>i. f (xs ! i) (ys ! i)) [0 ..< length ys])"
  then have "i < length ys" by simp
  with assms show "map (\<lambda>i. f (xs ! i) (ys ! i)) [0 ..< length ys] ! i = map2 f xs ys ! i"
    by simp
qed

lemma map_upt_filter_data:
  fixes frames :: "('a::{minus,times,numeral}) frame list"
  assumes "length names = length frames"
  shows "map (\<lambda>i. g (names ! i) (fst (filter_data frames ! i)) (snd (filter_data frames ! i)))
           [0 ..< length frames]
       = map2 (\<lambda>name frame. g name (fst (hd (filter_data [frame]))) (snd (hd (filter_data [frame]))))
           names frames"
proof -
  have "map (\<lambda>i. g (names ! i) (fst (filter_data frames ! i)) (snd (filter_data frames ! i)))
           [0 ..< length frames]
      = map (\<lambda>i. g (names ! i) (fst (hd (filter_data [frames ! i])))
                     (snd (hd (filter_data [frames ! i])))) [0 ..< length frames]"
    by (rule map_cong) (simp_all only: filter_data_nth set_upt atLeastLessThan_iff)
  also have "\<dots> = map2 (\<lambda>name frame. g name (fst (hd (filter_data [frame])))
                        (snd (hd (filter_data [frame])))) names frames"
    by (rule map_upt_nth2 [OF assms])
  finally show ?thesis .
qed

lemma map2_map_same: "map2 f (map g xs) (map h xs) = map (\<lambda>x. f (g x) (h x)) xs"
  by (induction xs) auto

lemma suptitle_map2:
  "length names = length frames \<Longrightarrow> map suptitle (map2 trace_figure names frames) = names"
  by (induction names frames rule: list_induct2) (auto simp: draw_def)

lemma main_loaded:
  fixes w :: "('a::{minus,times,numeral}) world"
  assumes ld: "load_data data_dir w = Inr (frames, names)"
    and ne: "frames \<noteq> []"
    and len: "length names = length frames"
    and guard: "\<not> (save \<and> figures_dir = None)"
  shows "\<exists>w'. main data_dir figures_dir save show w = (None, w')
     \<and> drawn w' = drawn w @ map2 trace_figure names frames
     \<and> saved w' = saved w @
          (if save
           then map2 (\<lambda>name frame.
                        (savefig_filename (path_join (figure_path w) (name @ ''.png'')),
                         trace_figure name frame)) names frames
           else [])
     \<and> made_dirs w' = made_dirs w @
          (if save \<and> \<not> os_path_exists w (figure_path w) then [figure_path w] else [])"
proof -
  note run = main_effect [OF ld ne guard, of "show", unfolded plot_loop_effect [OF guard]]
  have d: "map (\<lambda>i. figure_for (names ! i) (fst (filter_data frames ! i))
                     (snd (filter_data frames ! i))) [0 ..< length frames]
        = map2 trace_figure names frames"
    by (rule map_upt_filter_data
          [OF len, of "\<lambda>name sf cf. figure_for name sf cf"])
  have s: "map (\<lambda>i. (savefig_filename (path_join (figure_path w) (names ! i @ ''.png'')),
                     figure_for (names ! i) (fst (filter_data frames ! i))
                       (snd (filter_data frames ! i)))) [0 ..< length frames]
        = map2 (\<lambda>name frame.
                  (savefig_filename (path_join (figure_path w) (name @ ''.png'')),
                   trace_figure name frame)) names frames"
    by (rule map_upt_filter_data
          [OF len, of "\<lambda>name sf cf.
             (savefig_filename (path_join (figure_path w) (name @ ''.png'')),
              figure_for name sf cf)"])
  show ?thesis
    unfolding run
    apply (rule exI, rule conjI, rule refl)
    using ne by (simp add: d s)
qed

lemma main_all_parse:
  fixes w :: "('a::{minus,times,numeral}) world"
  assumes ent: "dir_entries w data_dir = Some entries"
    and parse: "\<forall>name \<in> set (csv_names entries). csv_tables w (path_join data_dir name) \<noteq> None"
    and some: "csv_names entries \<noteq> []"
    and guard: "\<not> (save \<and> figures_dir = None)"
  shows "\<exists>w'. main data_dir figures_dir save show w = (None, w')
     \<and> drawn w' = drawn w @
          map (\<lambda>name. trace_figure (before_dot name)
                        (the (csv_tables w (path_join data_dir name)))) (csv_names entries)
     \<and> saved w' = saved w @
          (if save
           then map (\<lambda>name.
                       (savefig_filename (path_join (figure_path w) (before_dot name @ ''.png'')),
                        trace_figure (before_dot name)
                          (the (csv_tables w (path_join data_dir name))))) (csv_names entries)
           else [])
     \<and> made_dirs w' = made_dirs w @
          (if save \<and> \<not> os_path_exists w (figure_path w) then [figure_path w] else [])"
proof -
  define frames where
    "frames = map (\<lambda>name. the (csv_tables w (path_join data_dir name))) (csv_names entries)"
  define names where "names = map before_dot (csv_names entries)"
  have ld: "load_data data_dir w = Inr (frames, names)"
    using load_data_all_parse [OF ent parse] by (simp add: frames_def names_def)
  have ne: "frames \<noteq> []" using some by (simp add: frames_def)
  have len: "length names = length frames" by (simp add: frames_def names_def)
  from main_loaded [OF ld ne len guard, of "show"]
  show ?thesis
    unfolding frames_def names_def map2_map_same .
qed

lemma main_paths:
  fixes w :: "('a::{minus,times,numeral}) world"
  assumes ent: "dir_entries w data_dir = Some entries"
    and parse: "\<forall>name \<in> set (csv_names entries). csv_tables w (path_join data_dir name) \<noteq> None"
    and some: "csv_names entries \<noteq> []"
    and guard: "\<not> (save \<and> figures_dir = None)"
  shows "\<exists>w'. main data_dir figures_dir save show w = (None, w')
     \<and> map fst (saved w') = map fst (saved w) @
          (if save
           then map (\<lambda>name. savefig_filename
                              (path_join (figure_path w) (before_dot name @ ''.png'')))
                  (csv_names entries)
           else [])
     \<and> made_dirs w' = made_dirs w @
          (if save \<and> \<not> os_path_exists w (figure_path w) then [figure_path w] else [])"
proof -
  from main_all_parse [OF assms, of "show"]
  obtain w' where "main data_dir figures_dir save show w = (None, w')"
    and sv: "saved w' = saved w @
          (if save
           then map (\<lambda>name.
                       (savefig_filename (path_join (figure_path w) (before_dot name @ ''.png'')),
                        trace_figure (before_dot name)
                          (the (csv_tables w (path_join data_dir name))))) (csv_names entries)
           else [])"
    and "made_dirs w' = made_dirs w @
          (if save \<and> \<not> os_path_exists w (figure_path w) then [figure_path w] else [])"
    by (elim exE conjE) (rule that)
  moreover from sv have "map fst (saved w') = map fst (saved w) @
          (if save
           then map (\<lambda>name. savefig_filename
                              (path_join (figure_path w) (before_dot name @ ''.png'')))
                  (csv_names entries)
           else [])"
    by (simp add: comp_def)
  ultimately show ?thesis by blast
qed

section \<open>Output files and names\<close>

lemma savefig_example:
  "savefig_filename ''/home/user/figures/trace1.png'' = ''/home/user/figures/trace1.png''"
  "savefig_filename ''/home/user/figures/run.png'' = ''/home/user/figures/run.png''"
  "savefig_filename ''/home/user/figures/.png'' = ''/home/user/figures/.png.png''"
  by (simp_all add: savefig_filename_def os_path_splitext_def Let_def)

lemma example_runs:
  "dir_entries example_world ''/runs'' = Some [''run.1.csv'', ''run.2.csv'']"
  "csv_names [''run.1.csv'', ''run.2.csv''] = [''run.1.csv'', ''run.2.csv'']"
  "\<forall>name \<in> set (csv_names [''run.1.csv'', ''run.2.csv'']).
      csv_tables example_world (path_join ''/runs'' name) \<noteq> None"
  by (simp_all add: example_world_def path_join_def)

lemma example_data:
  "dir_entries example_world ''/data'' = Some [''trace1.csv'', ''notes.txt'']"
  "csv_names [''trace1.csv'', ''notes.txt''] = [''trace1.csv'']"
  "\<forall>name \<in> set (csv_names [''trace1.csv'', ''notes.txt'']).
      csv_tables example_world (path_join ''/data'' name) \<noteq> None"
  by (simp_all add: example_world_def path_join_def)

lemma dotfile_hidden:
  "dir_entries dotfile_world ''/hidden'' = Some [''.trace.csv'']"
  "csv_names [''.trace.csv''] = [''.trace.csv'']"
  "\<forall>name \<in> set (csv_names [''.trace.csv'']).
      csv_tables dotfile_world (path_join ''/hidden'' name) \<noteq> None"
  by (simp_all add: dotfile_world_def path_join_def)

lemma dotfile_multi:
  "dir_entries dotfile_world ''/multi'' = Some [''a.csv'', ''.trace.csv'', ''notes.txt'', ''b.csv'']"
  "csv_names [''a.csv'', ''.trace.csv'', ''notes.txt'', ''b.csv'']
     = [''a.csv'', ''.trace.csv'', ''b.csv'']"
  "\<forall>name \<in> set (csv_names [''a.csv'', ''.trace.csv'', ''notes.txt'', ''b.csv'']).
      csv_tables dotfile_world (path_join ''/multi'' name) \<noteq> None"
  "\<forall>name \<in> set (csv_names [''a.csv'', ''.trace.csv'', ''notes.txt'', ''b.csv'']).
      CHR ''/'' \<notin> set name"
  by (simp_all add: dotfile_world_def path_join_def)

lemma dotfile_hidden_run:
  "fst (main ''/hidden'' (Some ''/home/user/figures'') True False dotfile_world) = None
   \<and> map fst (saved (snd (main ''/hidden'' (Some ''/home/user/figures'') True False dotfile_world)))
       = [''/home/user/figures/.png.png'']"
proof -
  have some: "csv_names [''.trace.csv''] \<noteq> []" by simp
  have guard: "\<not> (True \<and> Some ''/home/user/figures'' = None)" by simp
  from main_paths [OF dotfile_hidden(1) dotfile_hidden(3) some guard, of False]
  obtain w' where run: "main ''/hidden'' (Some ''/home/user/figures'') True False dotfile_world = (None, w')"
    and sv: "map fst (saved w') = map fst (saved dotfile_world) @
          (if True
           then map (\<lambda>name. savefig_filename
                              (path_join (figure_path dotfile_world) (before_dot name @ ''.png'')))
                  (csv_names [''.trace.csv''])
           else [])"
    by (elim exE conjE) (rule that)
  have "map fst (saved w') = [''/home/user/figures/.png.png'']"
    unfolding sv by (simp add: dotfile_world_def path_join_def savefig_example)
  then show ?thesis unfolding run by simp
qed

text \<open>
  Claim C1, at a failing input. The script is run on the example world with
  \<^verbatim>\<open>--data-dir /data --figure-dir /out --hide --save\<close> from the working directory
  \<^verbatim>\<open>/home/user\<close>. The PNG is written to \<^verbatim>\<open>/home/user/figures\<close>, the directory that
  is created; nothing is created or written under \<^verbatim>\<open>/out\<close>. The parameter
  \<^verbatim>\<open>figures_dir\<close>, documented as where to save the figure, is only tested against
  \<^verbatim>\<open>None\<close>.
\<close>

theorem C1_figures_dir_ignored:
  "fst (run_script \<lparr>arg_data_dir = Some ''/data'', arg_figure_dir = Some ''/out'',
                    arg_hide = True, arg_save = True\<rparr> example_world) = None
   \<and> map fst (saved (snd (run_script \<lparr>arg_data_dir = Some ''/data'', arg_figure_dir = Some ''/out'',
                    arg_hide = True, arg_save = True\<rparr> example_world)))
       = [''/home/user/figures/trace1.png'']
   \<and> made_dirs (snd (run_script \<lparr>arg_data_dir = Some ''/data'', arg_figure_dir = Some ''/out'',
                    arg_hide = True, arg_save = True\<rparr> example_world))
       = [''/home/user/figures'']"
proof -
  have some: "csv_names [''trace1.csv'', ''notes.txt''] \<noteq> []" by simp
  have guard: "\<not> (True \<and> Some ''/out'' = None)" by simp
  have run: "run_script \<lparr>arg_data_dir = Some ''/data'', arg_figure_dir = Some ''/out'',
                    arg_hide = True, arg_save = True\<rparr> example_world
      = main ''/data'' (Some ''/out'') True False example_world"
    by (simp add: run_script_def)
  from main_paths [OF example_data(1) example_data(3) some guard, of False]
  obtain w' where m: "main ''/data'' (Some ''/out'') True False example_world = (None, w')"
    and sv: "map fst (saved w') = map fst (saved example_world) @
          (if True
           then map (\<lambda>name. savefig_filename
                              (path_join (figure_path example_world) (before_dot name @ ''.png'')))
                  (csv_names [''trace1.csv'', ''notes.txt''])
           else [])"
    and md: "made_dirs w' = made_dirs example_world @
          (if True \<and> \<not> os_path_exists example_world (figure_path example_world)
           then [figure_path example_world] else [])"
    by (elim exE conjE) (rule that)
  have "map fst (saved w') = [''/home/user/figures/trace1.png'']"
    unfolding sv by (simp add: example_world_def path_join_def savefig_example)
  moreover have "made_dirs w' = [''/home/user/figures'']"
    unfolding md by (simp add: example_world_def path_join_def os_path_exists_def)
  ultimately show ?thesis unfolding run m by simp
qed

text \<open>
  Claim C2, as stated, on two directories. With the two dumps \<^verbatim>\<open>run.1.csv\<close> and
  \<^verbatim>\<open>run.2.csv\<close> both figures are saved under the one path \<^verbatim>\<open>run.png\<close>, so two inputs
  leave one PNG file. With the single dump \<^verbatim>\<open>.trace.csv\<close> the title is empty, the path
  handed to \<^verbatim>\<open>plt.savefig\<close> is \<^verbatim>\<open>figures/.png\<close>, which has no extension, and the file
  written is \<^verbatim>\<open>.png.png\<close>: a name that is not taken from the name of the input.
\<close>

theorem C2_counterexample:
  "dir_entries example_world ''/runs'' = Some [''run.1.csv'', ''run.2.csv'']
   \<and> length (csv_names [''run.1.csv'', ''run.2.csv'']) = 2
   \<and> csv_tables example_world ''/runs/run.1.csv'' = Some example_frame
   \<and> csv_tables example_world ''/runs/run.2.csv'' = Some example_frame
   \<and> fst (main ''/runs'' (Some ''/home/user/figures'') True False example_world) = None
   \<and> map fst (saved (snd (main ''/runs'' (Some ''/home/user/figures'') True False example_world)))
       = [''/home/user/figures/run.png'', ''/home/user/figures/run.png'']
   \<and> card (set (map fst (saved (snd
         (main ''/runs'' (Some ''/home/user/figures'') True False example_world))))) = 1
   \<and> dir_entries dotfile_world ''/hidden'' = Some [''.trace.csv'']
   \<and> csv_tables dotfile_world ''/hidden/.trace.csv'' = Some example_frame
   \<and> fst (main ''/hidden'' (Some ''/home/user/figures'') True False dotfile_world) = None
   \<and> map fst (saved (snd (main ''/hidden'' (Some ''/home/user/figures'') True False dotfile_world)))
       = [''/home/user/figures/.png.png'']"
proof -
  have some: "csv_names [''run.1.csv'', ''run.2.csv''] \<noteq> []" by simp
  have guard: "\<not> (True \<and> Some ''/home/user/figures'' = None)" by simp
  from main_paths [OF example_runs(1) example_runs(3) some guard, of False]
  obtain w' where run: "main ''/runs'' (Some ''/home/user/figures'') True False example_world = (None, w')"
    and sv: "map fst (saved w') = map fst (saved example_world) @
          (if True
           then map (\<lambda>name. savefig_filename
                              (path_join (figure_path example_world) (before_dot name @ ''.png'')))
                  (csv_names [''run.1.csv'', ''run.2.csv''])
           else [])"
    by (elim exE conjE) (rule that)
  have paths: "map fst (saved w') = [''/home/user/figures/run.png'', ''/home/user/figures/run.png'']"
    unfolding sv by (simp add: example_world_def path_join_def savefig_example)
  have first: "dir_entries example_world ''/runs'' = Some [''run.1.csv'', ''run.2.csv'']
   \<and> length (csv_names [''run.1.csv'', ''run.2.csv'']) = 2
   \<and> csv_tables example_world ''/runs/run.1.csv'' = Some example_frame
   \<and> csv_tables example_world ''/runs/run.2.csv'' = Some example_frame
   \<and> fst (main ''/runs'' (Some ''/home/user/figures'') True False example_world) = None
   \<and> map fst (saved (snd (main ''/runs'' (Some ''/home/user/figures'') True False example_world)))
       = [''/home/user/figures/run.png'', ''/home/user/figures/run.png'']
   \<and> card (set (map fst (saved (snd
         (main ''/runs'' (Some ''/home/user/figures'') True False example_world))))) = 1"
    unfolding run using paths by (simp add: example_world_def)
  have second: "dir_entries dotfile_world ''/hidden'' = Some [''.trace.csv'']
   \<and> csv_tables dotfile_world ''/hidden/.trace.csv'' = Some example_frame"
    by (simp add: dotfile_world_def)
  from first second dotfile_hidden_run show ?thesis
    by (elim conjE) (intro conjI; assumption)
qed

lemma savefig_entry:
  assumes "CHR ''/'' \<notin> set name"
  shows "savefig_filename (path_join (figure_path w) (before_dot name @ ''.png''))
     = figure_path w @ ''/'' @ png_name (before_dot name)"
  by (rule savefig_png [OF before_dot_no_slash [OF assms] before_dot_no_dot
        figure_path_end [THEN conjunct1] figure_path_end [THEN conjunct2]])

text \<open>
  Claim C2, amended. The directory holds at least one entry with \<^verbatim>\<open>.csv\<close> in its name,
  every such entry is a valid CSV with the columns \<^verbatim>\<open>Time\<close>, \<^verbatim>\<open>Source\<close> and
  \<^verbatim>\<open>Destination\<close> (it has a table), and no entry name holds a slash, as directory
  entries never do. A run with saving then draws one figure and saves one PNG per entry,
  in the order of the entries, all into one directory. The figure of an entry is drawn
  from the two sub-tables of that entry's table, under the part of the entry's name before
  its first dot as title, and is saved as that part followed by \<^verbatim>\<open>.png\<close>, or as
  \<^verbatim>\<open>.png.png\<close> when the part is empty. When the parts are pairwise distinct, the files
  are pairwise distinct, so the number of PNG files is the number of inputs.
\<close>

theorem C2_one_figure_per_input:
  fixes w :: "('a::{minus,times,numeral}) world"
  assumes "dir_entries w data_dir = Some entries"
    and "\<forall>name \<in> set (csv_names entries). csv_tables w (path_join data_dir name) \<noteq> None"
    and "csv_names entries \<noteq> []"
    and "\<forall>name \<in> set (csv_names entries). CHR ''/'' \<notin> set name"
  shows "\<exists>w' dir. main data_dir (Some figures_dir) True show w = (None, w')
     \<and> length (drawn w') = length (drawn w) + length (csv_names entries)
     \<and> length (saved w') = length (saved w) + length (csv_names entries)
     \<and> drawn w' = drawn w @
          map (\<lambda>name. trace_figure (before_dot name)
                        (the (csv_tables w (path_join data_dir name)))) (csv_names entries)
     \<and> saved w' = saved w @
          map (\<lambda>name. (dir @ ''/'' @ png_name (before_dot name),
                        trace_figure (before_dot name)
                          (the (csv_tables w (path_join data_dir name))))) (csv_names entries)
     \<and> (distinct (map before_dot (csv_names entries))
        \<longrightarrow> distinct (map (\<lambda>name. dir @ ''/'' @ png_name (before_dot name)) (csv_names entries))
            \<and> card (set (map (\<lambda>name. dir @ ''/'' @ png_name (before_dot name))
                             (csv_names entries)))
                = length (csv_names entries))"
proof -
  have guard: "\<not> (True \<and> Some figures_dir = None)" by simp
  from main_all_parse [OF assms(1,2,3) guard, of "show"]
  obtain w' where run: "main data_dir (Some figures_dir) True show w = (None, w')"
    and dr: "drawn w' = drawn w @
          map (\<lambda>name. trace_figure (before_dot name)
                        (the (csv_tables w (path_join data_dir name)))) (csv_names entries)"
    and sv: "saved w' = saved w @
          (if True
           then map (\<lambda>name.
                       (savefig_filename (path_join (figure_path w) (before_dot name @ ''.png'')),
                        trace_figure (before_dot name)
                          (the (csv_tables w (path_join data_dir name))))) (csv_names entries)
           else [])"
    by (elim exE conjE) (rule that)
  have "map (\<lambda>name.
               (savefig_filename (path_join (figure_path w) (before_dot name @ ''.png'')),
                trace_figure (before_dot name)
                  (the (csv_tables w (path_join data_dir name))))) (csv_names entries)
      = map (\<lambda>name. (figure_path w @ ''/'' @ png_name (before_dot name),
                trace_figure (before_dot name)
                  (the (csv_tables w (path_join data_dir name))))) (csv_names entries)"
  proof (rule map_cong [OF refl])
    fix name assume "name \<in> set (csv_names entries)"
    with assms(4) have ns: "CHR ''/'' \<notin> set name" by (rule bspec)
    show "(savefig_filename (path_join (figure_path w) (before_dot name @ ''.png'')),
                trace_figure (before_dot name)
                  (the (csv_tables w (path_join data_dir name))))
      = (figure_path w @ ''/'' @ png_name (before_dot name),
                trace_figure (before_dot name)
                  (the (csv_tables w (path_join data_dir name))))"
      by (simp only: savefig_entry [OF ns])
  qed
  with sv have sv': "saved w' = saved w @
          map (\<lambda>name. (figure_path w @ ''/'' @ png_name (before_dot name),
                        trace_figure (before_dot name)
                          (the (csv_tables w (path_join data_dir name))))) (csv_names entries)"
    by simp
  from dr have "length (drawn w') = length (drawn w @
          map (\<lambda>name. trace_figure (before_dot name)
                        (the (csv_tables w (path_join data_dir name)))) (csv_names entries))"
    by (rule arg_cong)
  then have d: "length (drawn w') = length (drawn w) + length (csv_names entries)" by simp
  from sv' have "length (saved w') = length (saved w @
          map (\<lambda>name. (figure_path w @ ''/'' @ png_name (before_dot name),
                        trace_figure (before_dot name)
                          (the (csv_tables w (path_join data_dir name))))) (csv_names entries))"
    by (rule arg_cong)
  then have s: "length (saved w') = length (saved w) + length (csv_names entries)" by simp
  have dist: "distinct (map (\<lambda>name. figure_path w @ ''/'' @ png_name (before_dot name))
                 (csv_names entries))
            \<and> card (set (map (\<lambda>name. figure_path w @ ''/'' @ png_name (before_dot name))
                             (csv_names entries)))
                = length (csv_names entries)"
    if "distinct (map before_dot (csv_names entries))"
  proof -
    from png_file_distinct [OF that, of "figure_path w"]
    have di: "distinct (map (\<lambda>name. figure_path w @ ''/'' @ png_name (before_dot name))
                 (csv_names entries))" .
    from distinct_card [OF di] have "card (set (map (\<lambda>name. figure_path w @ ''/'' @ png_name (before_dot name))
                             (csv_names entries))) = length (csv_names entries)"
      by simp
    with di show ?thesis by (rule conjI)
  qed
  show ?thesis
    apply (rule exI [of _ w'], rule exI [of _ "figure_path w"])
    using run d s dr sv' dist by blast
qed

theorem C2_one_figure_per_input_witness:
  "dir_entries dotfile_world ''/multi'' = Some [''a.csv'', ''.trace.csv'', ''notes.txt'', ''b.csv'']
   \<and> csv_names [''a.csv'', ''.trace.csv'', ''notes.txt'', ''b.csv'']
        = [''a.csv'', ''.trace.csv'', ''b.csv'']
   \<and> csv_tables dotfile_world (path_join ''/multi'' ''a.csv'') \<noteq> None
   \<and> csv_tables dotfile_world (path_join ''/multi'' ''.trace.csv'') \<noteq> None
   \<and> csv_tables dotfile_world (path_join ''/multi'' ''b.csv'') \<noteq> None
   \<and> CHR ''/'' \<notin> set ''a.csv'' \<and> CHR ''/'' \<notin> set ''.trace.csv'' \<and> CHR ''/'' \<notin> set ''b.csv''
   \<and> distinct (map before_dot [''a.csv'', ''.trace.csv'', ''b.csv''])
   \<and> (\<exists>w' dir. main ''/multi'' (Some ''/home/user/figures'') True False dotfile_world = (None, w')
         \<and> length (drawn w') = 3
         \<and> map fst (saved w') = [dir @ ''/a.png'', dir @ ''/.png.png'', dir @ ''/b.png'']
         \<and> distinct (map fst (saved w'))
         \<and> card (set (map fst (saved w'))) = 3)"
proof -
  have some: "csv_names [''a.csv'', ''.trace.csv'', ''notes.txt'', ''b.csv''] \<noteq> []" by simp
  have di: "distinct (map before_dot (csv_names [''a.csv'', ''.trace.csv'', ''notes.txt'', ''b.csv'']))"
    by simp
  from C2_one_figure_per_input [OF dotfile_multi(1) dotfile_multi(3) some dotfile_multi(4),
      of "''/home/user/figures''" False]
  obtain w' dir where
    run: "main ''/multi'' (Some ''/home/user/figures'') True False dotfile_world = (None, w')"
    and dr: "length (drawn w') = length (drawn dotfile_world)
               + length (csv_names [''a.csv'', ''.trace.csv'', ''notes.txt'', ''b.csv''])"
    and sv: "saved w' = saved dotfile_world @
          map (\<lambda>name. (dir @ ''/'' @ png_name (before_dot name),
                        trace_figure (before_dot name)
                          (the (csv_tables dotfile_world (path_join ''/multi'' name)))))
            (csv_names [''a.csv'', ''.trace.csv'', ''notes.txt'', ''b.csv''])"
    and ds: "distinct (map before_dot (csv_names [''a.csv'', ''.trace.csv'', ''notes.txt'', ''b.csv'']))
        \<longrightarrow> distinct (map (\<lambda>name. dir @ ''/'' @ png_name (before_dot name))
                        (csv_names [''a.csv'', ''.trace.csv'', ''notes.txt'', ''b.csv'']))
            \<and> card (set (map (\<lambda>name. dir @ ''/'' @ png_name (before_dot name))
                             (csv_names [''a.csv'', ''.trace.csv'', ''notes.txt'', ''b.csv''])))
                = length (csv_names [''a.csv'', ''.trace.csv'', ''notes.txt'', ''b.csv''])"
    by (elim exE conjE) (rule that)
  from dr have n: "length (drawn w') = 3" by (simp add: dotfile_world_def)
  from sv have paths: "map fst (saved w') = [dir @ ''/a.png'', dir @ ''/.png.png'', dir @ ''/b.png'']"
    by (simp add: dotfile_world_def)
  from ds di have "distinct (map (\<lambda>name. dir @ ''/'' @ png_name (before_dot name))
                        (csv_names [''a.csv'', ''.trace.csv'', ''notes.txt'', ''b.csv'']))
            \<and> card (set (map (\<lambda>name. dir @ ''/'' @ png_name (before_dot name))
                             (csv_names [''a.csv'', ''.trace.csv'', ''notes.txt'', ''b.csv''])))
                = length (csv_names [''a.csv'', ''.trace.csv'', ''notes.txt'', ''b.csv''])"
    by (rule mp)
  then have "distinct [dir @ ''/a.png'', dir @ ''/.png.png'', dir @ ''/b.png'']
      \<and> card (set [dir @ ''/a.png'', dir @ ''/.png.png'', dir @ ''/b.png'']) = 3"
    by simp
  with paths have dc: "distinct (map fst (saved w')) \<and> card (set (map fst (saved w'))) = 3"
    by simp
  have run': "\<exists>w' dir. main ''/multi'' (Some ''/home/user/figures'') True False dotfile_world = (None, w')
         \<and> length (drawn w') = 3
         \<and> map fst (saved w') = [dir @ ''/a.png'', dir @ ''/.png.png'', dir @ ''/b.png'']
         \<and> distinct (map fst (saved w'))
         \<and> card (set (map fst (saved w'))) = 3"
    apply (rule exI [of _ w'], rule exI [of _ dir])
    using run n paths dc by (elim conjE) (intro conjI; assumption)
  have pre: "dir_entries dotfile_world ''/multi'' = Some [''a.csv'', ''.trace.csv'', ''notes.txt'', ''b.csv'']
   \<and> csv_names [''a.csv'', ''.trace.csv'', ''notes.txt'', ''b.csv'']
        = [''a.csv'', ''.trace.csv'', ''b.csv'']
   \<and> csv_tables dotfile_world (path_join ''/multi'' ''a.csv'') \<noteq> None
   \<and> csv_tables dotfile_world (path_join ''/multi'' ''.trace.csv'') \<noteq> None
   \<and> csv_tables dotfile_world (path_join ''/multi'' ''b.csv'') \<noteq> None
   \<and> CHR ''/'' \<notin> set ''a.csv'' \<and> CHR ''/'' \<notin> set ''.trace.csv'' \<and> CHR ''/'' \<notin> set ''b.csv''
   \<and> distinct (map before_dot [''a.csv'', ''.trace.csv'', ''b.csv''])"
    by (simp add: dotfile_world_def path_join_def)
  from pre run' show ?thesis by (elim conjE) (intro conjI; assumption)
qed

text \<open>
  Claim C8, as stated, on two directories. For the names \<^verbatim>\<open>run.1.csv\<close> and
  \<^verbatim>\<open>run.2.csv\<close>, with the stems \<^verbatim>\<open>run.1\<close> and \<^verbatim>\<open>run.2\<close>, the loader returns the name
  \<^verbatim>\<open>run\<close> for both. For \<^verbatim>\<open>.trace.csv\<close> the loader returns the empty name, and the PNG
  written is \<^verbatim>\<open>.png.png\<close>, whose base name is not the empty name.
\<close>

theorem C8_counterexample:
  "dir_entries example_world ''/runs'' = Some [''run.1'' @ ''.csv'', ''run.2'' @ ''.csv'']
   \<and> \<not> isl (load_data ''/runs'' example_world)
   \<and> snd (projr (load_data ''/runs'' example_world)) = [''run'', ''run'']
   \<and> snd (projr (load_data ''/runs'' example_world)) \<noteq> [''run.1'', ''run.2'']
   \<and> dir_entries dotfile_world ''/hidden'' = Some [''.trace.csv'']
   \<and> \<not> isl (load_data ''/hidden'' dotfile_world)
   \<and> snd (projr (load_data ''/hidden'' dotfile_world)) = ['''']
   \<and> fst (main ''/hidden'' (Some ''/home/user/figures'') True False dotfile_world) = None
   \<and> map fst (saved (snd (main ''/hidden'' (Some ''/home/user/figures'') True False dotfile_world)))
       = [''/home/user/figures/.png.png'']"
proof -
  have first: "dir_entries example_world ''/runs'' = Some [''run.1'' @ ''.csv'', ''run.2'' @ ''.csv'']
   \<and> \<not> isl (load_data ''/runs'' example_world)
   \<and> snd (projr (load_data ''/runs'' example_world)) = [''run'', ''run'']
   \<and> snd (projr (load_data ''/runs'' example_world)) \<noteq> [''run.1'', ''run.2'']"
    using load_data_all_parse [OF example_runs(1) example_runs(3)]
    by (simp add: example_world_def)
  have second: "dir_entries dotfile_world ''/hidden'' = Some [''.trace.csv'']
   \<and> \<not> isl (load_data ''/hidden'' dotfile_world)
   \<and> snd (projr (load_data ''/hidden'' dotfile_world)) = ['''']"
    using load_data_all_parse [OF dotfile_hidden(1) dotfile_hidden(3)]
    by (simp add: dotfile_world_def)
  from first second dotfile_hidden_run show ?thesis
    by (elim conjE) (intro conjI; assumption)
qed

text \<open>
  Claim C8, amended. The loader returns one name per \<^verbatim>\<open>.csv\<close> entry, in order and
  paired with the table of that entry: the part of the entry's name before its first dot.
  For an entry \<^verbatim>\<open><stem>.csv\<close> whose stem holds no dot this is the stem. A run of
  \<^verbatim>\<open>main\<close> over entries without a slash draws, for each name in order, the figure of
  the table paired with it, with the name as title; when saving, the figure is written
  as the name followed by \<^verbatim>\<open>.png\<close>, or as \<^verbatim>\<open>.png.png\<close> when the name is empty.
\<close>

theorem C8_names_before_first_dot:
  fixes w :: "('a::{minus,times,numeral}) world"
  assumes "load_data data_dir w = Inr (frames, names)"
  shows "\<exists>entries. dir_entries w data_dir = Some entries
     \<and> names = map before_dot (csv_names entries)
     \<and> length frames = length names
     \<and> (\<forall>i < length names.
           csv_tables w (path_join data_dir (csv_names entries ! i)) = Some (frames ! i))
     \<and> (\<forall>i stem. i < length names \<and> csv_names entries ! i = stem @ ''.csv''
             \<and> CHR ''.'' \<notin> set stem \<longrightarrow> names ! i = stem)
     \<and> (frames \<noteq> [] \<and> \<not> (save \<and> figures_dir = None)
          \<and> (\<forall>name \<in> set (csv_names entries). CHR ''/'' \<notin> set name) \<longrightarrow>
          (\<exists>w' dir. main data_dir figures_dir save show w = (None, w')
             \<and> map suptitle (drawn w') = map suptitle (drawn w) @ names
             \<and> drawn w' = drawn w @ map2 trace_figure names frames
             \<and> saved w' = saved w @
                  (if save
                   then map2 (\<lambda>name frame. (dir @ ''/'' @ png_name name, trace_figure name frame))
                          names frames
                   else [])))"
proof -
  from load_data_Inr [OF assms] obtain entries where
    ent: "dir_entries w data_dir = Some entries"
    and nm: "names = map before_dot (csv_names entries)"
    and tb: "map (csv_tables w) (map (path_join data_dir) (csv_names entries)) = map Some frames"
    by blast
  from tb have "length (map (csv_tables w) (map (path_join data_dir) (csv_names entries)))
      = length (map Some frames)" by (rule arg_cong)
  then have len: "length (csv_names entries) = length frames" by simp
  from len nm have len': "length frames = length names" by simp
  have nth: "csv_tables w (path_join data_dir (csv_names entries ! i)) = Some (frames ! i)"
    if "i < length names" for i
  proof -
    from that nm have i: "i < length (csv_names entries)" by simp
    from tb have "map (csv_tables w) (map (path_join data_dir) (csv_names entries)) ! i
        = map Some frames ! i" by (rule arg_cong)
    with i len show ?thesis by simp
  qed
  have stem: "names ! i = stem"
    if "i < length names" "csv_names entries ! i = stem @ ''.csv''" "CHR ''.'' \<notin> set stem"
    for i stem
  proof -
    from that(1) nm have "names ! i = before_dot (csv_names entries ! i)" by simp
    with that(2,3) show ?thesis by (simp add: before_dot_stem)
  qed
  have run: "\<exists>w' dir. main data_dir figures_dir save show w = (None, w')
             \<and> map suptitle (drawn w') = map suptitle (drawn w) @ names
             \<and> drawn w' = drawn w @ map2 trace_figure names frames
             \<and> saved w' = saved w @
                  (if save
                   then map2 (\<lambda>name frame. (dir @ ''/'' @ png_name name, trace_figure name frame))
                          names frames
                   else [])"
    if ne: "frames \<noteq> []" and guard: "\<not> (save \<and> figures_dir = None)"
      and slash: "\<forall>name \<in> set (csv_names entries). CHR ''/'' \<notin> set name"
  proof -
    from main_loaded [OF assms ne len' [symmetric] guard, of "show"]
    obtain w' where m: "main data_dir figures_dir save show w = (None, w')"
      and dr: "drawn w' = drawn w @ map2 trace_figure names frames"
      and sv: "saved w' = saved w @
          (if save
           then map2 (\<lambda>name frame.
                        (savefig_filename (path_join (figure_path w) (name @ ''.png'')),
                         trace_figure name frame)) names frames
           else [])"
      by (elim exE conjE) (rule that)
    have fn: "savefig_filename (path_join (figure_path w) (name @ ''.png''))
        = figure_path w @ ''/'' @ png_name name"
      if "name \<in> set names" for name
    proof -
      from that nm obtain e where e: "e \<in> set (csv_names entries)" "name = before_dot e"
        by auto
      from slash e(1) have "CHR ''/'' \<notin> set e" by (rule bspec)
      from savefig_entry [OF this, of w] show ?thesis by (simp only: e(2))
    qed
    have "map2 (\<lambda>name frame.
                  (savefig_filename (path_join (figure_path w) (name @ ''.png'')),
                   trace_figure name frame)) names frames
        = map2 (\<lambda>name frame. (figure_path w @ ''/'' @ png_name name, trace_figure name frame))
            names frames"
    proof (rule map_cong [OF refl])
      fix p assume p: "p \<in> set (zip names frames)"
      obtain name frame where pf: "p = (name, frame)" by (cases p)
      with p have "name \<in> set names" by (auto dest: set_zip_leftD)
      from fn [OF this] pf
      show "(case p of (name, frame) \<Rightarrow>
               (savefig_filename (path_join (figure_path w) (name @ ''.png'')),
                trace_figure name frame))
          = (case p of (name, frame) \<Rightarrow>
               (figure_path w @ ''/'' @ png_name name, trace_figure name frame))"
        by simp
    qed
    with sv have sv': "saved w' = saved w @
          (if save
           then map2 (\<lambda>name frame. (figure_path w @ ''/'' @ png_name name, trace_figure name frame))
                  names frames
           else [])"
      by simp
    from dr have "map suptitle (drawn w')
        = map suptitle (drawn w @ map2 trace_figure names frames)" by (rule arg_cong)
    then have ti: "map suptitle (drawn w') = map suptitle (drawn w) @ names"
      using suptitle_map2 [OF len' [symmetric]] by simp
    show ?thesis
      apply (rule exI [of _ w'], rule exI [of _ "figure_path w"])
      using m ti dr sv' by - (intro conjI; assumption)
  qed
  show ?thesis
    apply (rule exI [of _ entries])
    using ent nm len' nth stem run by blast
qed

theorem C8_names_before_first_dot_witness:
  "load_data ''/multi'' dotfile_world
     = Inr ([example_frame, example_frame, example_frame], [''a'', '''', ''b''])
   \<and> (\<exists>entries. dir_entries dotfile_world ''/multi'' = Some entries
         \<and> [''a'', '''', ''b''] = map before_dot (csv_names entries)
         \<and> csv_names entries ! 0 = ''a'' @ ''.csv''
         \<and> CHR ''.'' \<notin> set ''a''
         \<and> (\<exists>w' dir. main ''/multi'' (Some ''/home/user/figures'') True False dotfile_world
                         = (None, w')
               \<and> map suptitle (drawn w') = [''a'', '''', ''b'']
               \<and> map fst (saved w')
                    = [dir @ ''/a.png'', dir @ ''/.png.png'', dir @ ''/b.png'']))"
proof -
  have ld: "load_data ''/multi'' dotfile_world
      = Inr ([example_frame, example_frame, example_frame], [''a'', '''', ''b''])"
    using load_data_all_parse [OF dotfile_multi(1) dotfile_multi(3)]
    by (simp add: dotfile_world_def path_join_def)
  from C8_names_before_first_dot [OF ld, of True "Some ''/home/user/figures''" False]
  obtain entries where ent: "dir_entries dotfile_world ''/multi'' = Some entries"
    and nm: "[''a'', '''', ''b''] = map before_dot (csv_names entries)"
    and run: "[example_frame, example_frame, example_frame] \<noteq> []
          \<and> \<not> (True \<and> Some ''/home/user/figures'' = None)
          \<and> (\<forall>name \<in> set (csv_names entries). CHR ''/'' \<notin> set name) \<longrightarrow>
          (\<exists>w' dir. main ''/multi'' (Some ''/home/user/figures'') True False dotfile_world
                        = (None, w')
             \<and> map suptitle (drawn w') = map suptitle (drawn dotfile_world) @ [''a'', '''', ''b'']
             \<and> drawn w' = drawn dotfile_world @
                  map2 trace_figure [''a'', '''', ''b'']
                    [example_frame, example_frame, example_frame]
             \<and> saved w' = saved dotfile_world @
                  (if True
                   then map2 (\<lambda>name frame. (dir @ ''/'' @ png_name name, trace_figure name frame))
                          [''a'', '''', ''b''] [example_frame, example_frame, example_frame]
                   else []))"
    by (elim exE conjE) (rule that)
  from ent dotfile_multi(1)
  have es: "entries = [''a.csv'', ''.trace.csv'', ''notes.txt'', ''b.csv'']" by simp
  have pre: "[example_frame, example_frame, example_frame] \<noteq> []
          \<and> \<not> (True \<and> Some ''/home/user/figures'' = None)
          \<and> (\<forall>name \<in> set (csv_names entries). CHR ''/'' \<notin> set name)"
    unfolding es by simp
  from run pre have "\<exists>w' dir. main ''/multi'' (Some ''/home/user/figures'') True False dotfile_world
                        = (None, w')
             \<and> map suptitle (drawn w') = map suptitle (drawn dotfile_world) @ [''a'', '''', ''b'']
             \<and> drawn w' = drawn dotfile_world @
                  map2 trace_figure [''a'', '''', ''b'']
                    [example_frame, example_frame, example_frame]
             \<and> saved w' = saved dotfile_world @
                  (if True
                   then map2 (\<lambda>name frame. (dir @ ''/'' @ png_name name, trace_figure name frame))
                          [''a'', '''', ''b''] [example_frame, example_frame, example_frame]
                   else [])"
    by (rule mp)
  then obtain w' dir where
    m: "main ''/multi'' (Some ''/home/user/figures'') True False dotfile_world = (None, w')"
    and ti: "map suptitle (drawn w') = map suptitle (drawn dotfile_world) @ [''a'', '''', ''b'']"
    and sv: "saved w' = saved dotfile_world @
                  (if True
                   then map2 (\<lambda>name frame. (dir @ ''/'' @ png_name name, trace_figure name frame))
                          [''a'', '''', ''b''] [example_frame, example_frame, example_frame]
                   else [])"
    by (elim exE conjE) (rule that)
  from ti have ti': "map suptitle (drawn w') = [''a'', '''', ''b'']"
    by (simp add: dotfile_world_def)
  from sv have sv': "map fst (saved w') = [dir @ ''/a.png'', dir @ ''/.png.png'', dir @ ''/b.png'']"
    by (simp add: dotfile_world_def)
  have inner: "\<exists>w' dir. main ''/multi'' (Some ''/home/user/figures'') True False dotfile_world
                         = (None, w')
               \<and> map suptitle (drawn w') = [''a'', '''', ''b'']
               \<and> map fst (saved w')
                    = [dir @ ''/a.png'', dir @ ''/.png.png'', dir @ ''/b.png'']"
    apply (rule exI [of _ w'], rule exI [of _ dir])
    using m ti' sv' by - (intro conjI; assumption)
  have e0: "csv_names entries ! 0 = ''a'' @ ''.csv''" unfolding es by simp
  have nd: "CHR ''.'' \<notin> set ''a''" by simp
  have "\<exists>entries. dir_entries dotfile_world ''/multi'' = Some entries
         \<and> [''a'', '''', ''b''] = map before_dot (csv_names entries)
         \<and> csv_names entries ! 0 = ''a'' @ ''.csv''
         \<and> CHR ''.'' \<notin> set ''a''
         \<and> (\<exists>w' dir. main ''/multi'' (Some ''/home/user/figures'') True False dotfile_world
                         = (None, w')
               \<and> map suptitle (drawn w') = [''a'', '''', ''b'']
               \<and> map fst (saved w')
                    = [dir @ ''/a.png'', dir @ ''/.png.png'', dir @ ''/b.png''])"
    apply (rule exI [of _ entries])
    using ent nm e0 nd inner by - (intro conjI; assumption)
  with ld show ?thesis by (rule conjI)
qed

end
